theory Spec2Isabelle
  imports Complex_Main "HOL-Library.Log_Nat"
begin

section \<open>Data model (crm/models.py)\<close>

text \<open>
  Text is the list of its code points, for the code points below 256 (type \<open>char\<close>).
  A primary key is a UUID, written \<open>ident\<close> and represented by its canonical spelling
  (what \<open>str\<close> gives for it). \<open>Decimal\<close> values are the finite ones, as exact
  rationals. The \<open>order_date\<close> column (a creation timestamp) is left out.
\<close>

type_synonym ident = string

record customer =
  customer_id :: ident
  customer_name :: string
  customer_email :: string
  customer_phone :: "string option"

record product =
  product_id :: ident
  product_name :: string
  product_price :: rat
  product_stock :: int

record order =
  order_id :: ident
  order_customer :: ident
  order_total_amount :: rat

text \<open>
  The database: one list of rows per table, and the rows of the many-to-many table
  behind \<open>Order.products\<close> as pairs (order id, product id). A Product row holds
  the values as the columns keep them (the price rounded to two decimal places). An
  Order row records the Order object handed to \<open>save\<close>, with the \<open>total_amount\<close>
  that \<open>calculate_total_amount\<close> assigned; the rounding of that column at the write
  is not part of the model, and nothing below speaks of the stored total.
\<close>

record store =
  customers :: "customer list"
  products :: "product list"
  orders :: "order list"
  order_products :: "(ident \<times> ident) list"

section \<open>Errors\<close>

text \<open>
  The mutations raise \<open>Exception\<close> or \<open>ValidationError\<close> with a message. An error is
  the message of the raise site together with the error kind that the specification
  gives to that site. Two kinds are not of the specification and no handler of the
  mutations catches them: \<open>DatabaseError\<close> stands for an exception raised by a write
  (\<open>IntegrityError\<close> and \<open>DataError\<close> of the database, \<open>decimal.InvalidOperation\<close>
  when a value does not fit its column); \<open>InvalidUUIDError\<close> is the
  \<open>ValidationError\<close> that a lookup by primary key raises when the identifier is no
  UUID. Its message is the identifier between typographic quotation marks, followed
  by "is not a valid UUID."; the marks are no code points below 256, so this error
  carries the identifier alone.
\<close>

datatype error_kind =
  MissingFieldError | FormatError | ConflictError | RangeError
  | NotFoundError | EmptyInputError | DatabaseError | InvalidUUIDError

type_synonym error = "error_kind \<times> string"

section \<open>Inputs of the mutations (crm/schema.py)\<close>

text \<open>
  \<open>name\<close>, \<open>email\<close>, \<open>price\<close>, \<open>customer_id\<close> and \<open>product_ids\<close> are declared
  \<open>required=True\<close>, so they are always present; \<open>phone\<close> and \<open>stock\<close> may be absent.
\<close>

record customer_input =
  ci_name :: string
  ci_email :: string
  ci_phone :: "string option"

record product_input =
  pi_name :: string
  pi_price :: rat
  pi_stock :: "int option"

record order_input =
  oi_customer_id :: string
  oi_product_ids :: "string list"

section \<open>CreateProduct\<close>

text \<open>Rounding to the nearest integer, ties to the even one (\<open>ROUND_HALF_EVEN\<close>).\<close>

definition round_half_even :: "rat \<Rightarrow> int" where
  "round_half_even x =
     (let f = \<lfloor>x\<rfloor>; r = x - of_int f
      in if r < 1 / 2 then f else if 1 / 2 < r then f + 1
         else if even f then f else f + 1)"

text \<open>
  What a \<open>DecimalField(max_digits=10, decimal_places=2)\<close> column keeps of a decimal:
  the value rounded to two decimal places, ties to even; a result of more than ten
  digits raises \<open>decimal.InvalidOperation\<close> (\<open>None\<close>) and nothing is written.
\<close>

definition quantize_2 :: "rat \<Rightarrow> rat" where
  "quantize_2 x = of_int (round_half_even (x * 100)) / 100"

definition decimal_10_2 :: "rat \<Rightarrow> rat option" where
  "decimal_10_2 x = (let q = quantize_2 x in if \<bar>q\<bar> < 10 ^ 8 then Some q else None)"

text \<open>
  \<open>Product.objects.create(name=name, price=price, stock=stock or 0)\<close>: the row
  written when the price fits the column.
\<close>

definition insert_product :: "store \<Rightarrow> product \<Rightarrow> error + store" where
  "insert_product s p =
     (case decimal_10_2 (product_price p) of
        None \<Rightarrow> Inl (DatabaseError, ''InvalidOperation'')
      | Some q \<Rightarrow> Inr (s\<lparr>products := products s @ [p\<lparr>product_price := q\<rparr>]\<rparr>))"

text \<open>Python's \<open>stock or 0\<close>: \<open>None\<close> and \<open>0\<close> both give \<open>0\<close>.\<close>

definition stock_or_0 :: "int option \<Rightarrow> int" where
  "stock_or_0 stock = (case stock of None \<Rightarrow> 0 | Some k \<Rightarrow> if k = 0 then 0 else k)"

text \<open>
  \<open>CreateProduct.mutate\<close>; \<open>uuid\<close> is the value that \<open>uuid.uuid4\<close> gives to the new
  row. The result is the outcome and the database after the call. The Product
  returned is the object that \<open>create\<close> built, with the price as given.
\<close>

definition create_product :: "ident \<Rightarrow> store \<Rightarrow> product_input \<Rightarrow> (error + product) \<times> store" where
  "create_product uuid s inp =
     (let name = pi_name inp; price = pi_price inp; stock = pi_stock inp in
      if price \<le> 0 then (Inl (RangeError, ''Price must be a positive number.''), s)
      else if stock \<noteq> None \<and> the stock < 0
        then (Inl (RangeError, ''Stock cannot be a negative number.''), s)
      else
        let product = \<lparr>product_id = uuid, product_name = name, product_price = price,
                        product_stock = stock_or_0 stock\<rparr>
        in case insert_product s product of
             Inl e \<Rightarrow> (Inl e, s)
           | Inr s' \<Rightarrow> (Inr product, s'))"

definition is_range_error :: "(error + 'a) \<Rightarrow> bool" where
  "is_range_error r = (case r of Inl (k, m) \<Rightarrow> k = RangeError | Inr v \<Rightarrow> False)"

definition empty_store :: store where
  "empty_store = \<lparr>customers = [], products = [], orders = [], order_products = []\<rparr>"

section \<open>Validation of customer data\<close>

text \<open>
  \<open>django.core.validators.validate_email\<close> is library code: the mutations take it as
  the predicate \<open>ve\<close>, true where the validator accepts the address.
\<close>

text \<open>
  \<open>re.match(r"^\+?\d{9,15}$", phone)\<close>: an optional plus sign, then 9 to 15 digits,
  up to the end of the string or to a line feed that ends it (Python's \<open>$\<close>).
  \<open>\d\<close> matches the decimal digits of Unicode; among the code points below 256,
  which are the text of this model, these are the ten ASCII digits.
\<close>

definition is_digit :: "char \<Rightarrow> bool" where
  "is_digit c = (c \<in> set ''0123456789'')"

definition phone_re_match :: "string \<Rightarrow> bool" where
  "phone_re_match phone =
     (let r = (case phone of [] \<Rightarrow> [] | c # cs \<Rightarrow> if c = CHR ''+'' then cs else phone);
          ds = (if r \<noteq> [] \<and> last r = CHR 0x0A then butlast r else r)
      in 9 \<le> length ds \<and> length ds \<le> 15 \<and> list_all is_digit ds)"

text \<open>\<open>phone and not re.match(...)\<close>: an absent or empty phone is not checked.\<close>

definition phone_rejected :: "string option \<Rightarrow> bool" where
  "phone_rejected phone =
     (case phone of None \<Rightarrow> False | Some p \<Rightarrow> p \<noteq> [] \<and> \<not> phone_re_match p)"

text \<open>\<open>Customer.objects.filter(email=email).exists()\<close>.\<close>

definition email_exists :: "store \<Rightarrow> string \<Rightarrow> bool" where
  "email_exists s email = list_ex (\<lambda>c. customer_email c = email) (customers s)"

text \<open>
  Writing a Customer row (\<open>customer.save()\<close>, \<open>Customer.objects.create\<close>). The column
  \<open>email\<close> is declared \<open>unique=True\<close>, so the database refuses a second row with the same
  email; \<open>db\<close> tells whether the database accepts the row otherwise (column lengths,
  availability), which depends on the backend.
\<close>

definition save_customer :: "(customer \<Rightarrow> bool) \<Rightarrow> store \<Rightarrow> customer \<Rightarrow> error + store" where
  "save_customer db s c =
     (if email_exists s (customer_email c) then Inl (DatabaseError, ''IntegrityError'')
      else if \<not> db c then Inl (DatabaseError, ''DatabaseError'')
      else Inr (s\<lparr>customers := customers s @ [c]\<rparr>))"

section \<open>CreateCustomer\<close>

text \<open>\<open>CreateCustomer.mutate\<close>; \<open>uuid\<close> is the value of \<open>uuid.uuid4\<close> for the new row.\<close>

definition create_customer ::
  "(string \<Rightarrow> bool) \<Rightarrow> (customer \<Rightarrow> bool) \<Rightarrow> ident \<Rightarrow> store \<Rightarrow> customer_input
     \<Rightarrow> (error + customer) \<times> store" where
  "create_customer ve db uuid s inp =
     (let name = ci_name inp; email = ci_email inp; phone = ci_phone inp in
      if \<not> ve email then (Inl (FormatError, ''Invalid email address format.''), s)
      else if email_exists s email then (Inl (ConflictError, ''Email already exists.''), s)
      else if phone_rejected phone
        then (Inl (FormatError,
                ''Invalid phone number format. Must be +999999999 up to 15 digits.''), s)
      else
        let customer = \<lparr>customer_id = uuid, customer_name = name, customer_email = email,
                         customer_phone = phone\<rparr>
        in case save_customer db s customer of
             Inl e \<Rightarrow> (Inl e, s)
           | Inr s' \<Rightarrow> (Inr customer, s'))"

section \<open>BulkCreateCustomers\<close>

definition quote :: string where
  "quote = [CHR 0x27]"

text \<open>
  The checks inside the \<open>try\<close> block of the loop body, up to the write: the
  \<open>ValidationError\<close> raised, if any, with the kind of the raise site.
\<close>

definition validate_bulk :: "(string \<Rightarrow> bool) \<Rightarrow> store \<Rightarrow> customer_input \<Rightarrow> error option" where
  "validate_bulk ve s d =
     (let name = ci_name d; email = ci_email d; phone = ci_phone d in
      if name = [] then Some (MissingFieldError, ''Name is required.'')
      else if email = [] then Some (MissingFieldError, ''Email is required.'')
      else if \<not> ve email
        then Some (FormatError, ''Invalid email address format for '' @ email @ ''.'')
      else if email_exists s email
        then Some (ConflictError, ''Email '' @ quote @ email @ quote @ '' already exists.'')
      else if phone_rejected phone
        then Some (FormatError,
               ''Invalid phone number format for '' @ quote @ the phone @ quote @ ''.'')
      else None)"

text \<open>The string appended to \<open>validation_errors\<close> by the \<open>except\<close> clause.\<close>

definition error_line :: "customer_input \<Rightarrow> string \<Rightarrow> string" where
  "error_line d msg = ''Validation error for '' @ ci_email d @ '': '' @ msg"

text \<open>
  The loop of \<open>BulkCreateCustomers.mutate\<close>, on the database as the transaction sees it.
  \<open>uuid4 n\<close> is the identifier drawn for the \<open>n\<close>-th row created by the call. A
  \<open>ValidationError\<close> is caught and recorded; an exception of the database leaves the
  loop, with the rows written so far still in the transaction's view.
\<close>

fun bulk_loop ::
  "(string \<Rightarrow> bool) \<Rightarrow> (customer \<Rightarrow> bool) \<Rightarrow> (nat \<Rightarrow> ident) \<Rightarrow> store
     \<Rightarrow> customer list \<Rightarrow> string list \<Rightarrow> customer_input list
     \<Rightarrow> (error + customer list \<times> string list) \<times> store" where
  "bulk_loop ve db uuid4 s created_customers validation_errors [] =
     (Inr (created_customers, validation_errors), s)"
| "bulk_loop ve db uuid4 s created_customers validation_errors (d # rest) =
     (case validate_bulk ve s d of
        Some (k, msg) \<Rightarrow>
          bulk_loop ve db uuid4 s created_customers
            (validation_errors @ [error_line d msg]) rest
      | None \<Rightarrow>
          let customer = \<lparr>customer_id = uuid4 (length created_customers),
                           customer_name = ci_name d, customer_email = ci_email d,
                           customer_phone = ci_phone d\<rparr>
          in case save_customer db s customer of
               Inl e \<Rightarrow> (Inl e, s)
             | Inr s' \<Rightarrow>
                 bulk_loop ve db uuid4 s' (created_customers @ [customer])
                   validation_errors rest)"

text \<open>
  \<open>@transaction.atomic\<close>: when the body raises, the database is the one before the
  call; when it returns, the writes of the body are committed.
\<close>

definition atomic :: "store \<Rightarrow> (error + 'a) \<times> store \<Rightarrow> (error + 'a) \<times> store" where
  "atomic s0 r = (case fst r of Inl e \<Rightarrow> (Inl e, s0) | Inr v \<Rightarrow> (Inr v, snd r))"

definition bulk_create_customers ::
  "(string \<Rightarrow> bool) \<Rightarrow> (customer \<Rightarrow> bool) \<Rightarrow> (nat \<Rightarrow> ident) \<Rightarrow> store
     \<Rightarrow> customer_input list \<Rightarrow> (error + customer list \<times> string list) \<times> store" where
  "bulk_create_customers ve db uuid4 s inputs =
     atomic s (bulk_loop ve db uuid4 s [] [] inputs)"

text \<open>The input that a Customer row was made from.\<close>

definition input_of :: "customer \<Rightarrow> customer_input" where
  "input_of c = \<lparr>ci_name = customer_name c, ci_email = customer_email c,
                  ci_phone = customer_phone c\<rparr>"

text \<open>
  The validation chain of the specification for one input, against the emails that
  the store holds: \<open>validate_required(name, email)\<close>, \<open>validate_email_format\<close>,
  \<open>validate_uniqueness\<close>, \<open>validate_phone_format\<close> (an absent or empty phone is
  valid). The result is the message of the first step that fails, as the batch
  mutation words it, and \<open>None\<close> when every step passes.
\<close>

definition spec_chain :: "(string \<Rightarrow> bool) \<Rightarrow> string list \<Rightarrow> customer_input \<Rightarrow> string option" where
  "spec_chain ve emails d =
     (if ci_name d = [] then Some ''Name is required.''
      else if ci_email d = [] then Some ''Email is required.''
      else if \<not> ve (ci_email d)
        then Some (''Invalid email address format for '' @ ci_email d @ ''.'')
      else if ci_email d \<in> set emails
        then Some (''Email '' @ quote @ ci_email d @ quote @ '' already exists.'')
      else case ci_phone d of
             None \<Rightarrow> None
           | Some p \<Rightarrow>
               if p = [] \<or> phone_re_match p then None
               else Some (''Invalid phone number format for '' @ quote @ p @ quote @ ''.''))"

text \<open>
  The outcome of each input of a batch, in input order: the chain is run on each
  input against the emails held when its turn comes, which are those held before the
  batch and those of the inputs accepted before it.
\<close>

fun spec_outcomes ::
  "(string \<Rightarrow> bool) \<Rightarrow> string list \<Rightarrow> customer_input list \<Rightarrow> string option list" where
  "spec_outcomes ve emails [] = []"
| "spec_outcomes ve emails (d # ds) =
     (case spec_chain ve emails d of
        None \<Rightarrow> None # spec_outcomes ve (emails @ [ci_email d]) ds
      | Some m \<Rightarrow> Some m # spec_outcomes ve emails ds)"

section \<open>Order pricing (Order.calculate_total_amount)\<close>

text \<open>
  Python's \<open>float\<close> is the IEEE 754 binary64 format. A finite double is written here as
  the rational number it denotes. \<open>round_double\<close> is the rounding of an exact result
  to the nearest double, ties to the even significand: 53 significant bits, the least
  exponent of a unit in the last place being \<open>-1074\<close>. Results beyond the largest
  double (about \<open>1.8e308\<close>) are not modelled: a price has at most 10 digits.
\<close>

definition pow2 :: "int \<Rightarrow> rat" where
  "pow2 e = (if 0 \<le> e then 2 ^ nat e else 1 / 2 ^ nat (- e))"

text \<open>\<open>ilog2 a\<close> is the integer \<open>e\<close> with \<open>2^e \<le> a < 2^(e+1)\<close>, for \<open>a > 0\<close>.\<close>

definition ilog2 :: "rat \<Rightarrow> int" where
  "ilog2 a =
     (let (p, q) = quotient_of a; d = bitlen p - bitlen q
      in if pow2 d \<le> a then d else d - 1)"

definition round_double :: "rat \<Rightarrow> rat" where
  "round_double x =
     (if x = 0 then 0
      else let ulp = pow2 (max (ilog2 \<bar>x\<bar> - 52) (- 1074))
           in sgn x * of_int (round_half_even (\<bar>x\<bar> / ulp)) * ulp)"

text \<open>\<open>float(product.price)\<close>: the double nearest to the decimal.\<close>

definition float_of_decimal :: "rat \<Rightarrow> rat" where
  "float_of_decimal d = round_double d"

text \<open>\<open>a + b\<close> on floats.\<close>

definition float_add :: "rat \<Rightarrow> rat \<Rightarrow> rat" where
  "float_add a b = round_double (a + b)"

text \<open>
  Identifiers reach CreateOrder as \<open>graphene.ID\<close> values, which are strings. A lookup
  by primary key turns the string into a UUID with \<open>uuid.UUID\<close>, library code that
  accepts several spellings of one UUID: the mutations take it as the function
  \<open>uuid_of\<close>, which gives the UUID that a string denotes, or \<open>None\<close> where it is no
  UUID.

  \<open>Customer.objects.get(pk=...)\<close> and \<open>Product.objects.get(pk=...)\<close> have three
  outcomes: the \<open>ValidationError\<close> for a string that is no UUID, \<open>DoesNotExist\<close>,
  and the row found.
\<close>

datatype 'a get_result = InvalidUUID | DoesNotExist | Found 'a

definition get_customer ::
  "(string \<Rightarrow> ident option) \<Rightarrow> store \<Rightarrow> string \<Rightarrow> customer get_result" where
  "get_customer uuid_of s pk =
     (case uuid_of pk of
        None \<Rightarrow> InvalidUUID
      | Some k \<Rightarrow>
          (case find (\<lambda>c. customer_id c = k) (customers s) of
             None \<Rightarrow> DoesNotExist
           | Some c \<Rightarrow> Found c))"

definition get_product ::
  "(string \<Rightarrow> ident option) \<Rightarrow> store \<Rightarrow> string \<Rightarrow> product get_result" where
  "get_product uuid_of s pk =
     (case uuid_of pk of
        None \<Rightarrow> InvalidUUID
      | Some k \<Rightarrow>
          (case find (\<lambda>p. product_id p = k) (products s) of
             None \<Rightarrow> DoesNotExist
           | Some p \<Rightarrow> Found p))"

text \<open>
  The loop of \<open>calculate_total_amount\<close>, from the running total \<open>tot\<close>. The handler
  turns \<open>DoesNotExist\<close> into the \<open>ValidationError\<close> that names the identifier; the
  error of a string that is no UUID passes through it.
\<close>

fun total_loop ::
  "(string \<Rightarrow> ident option) \<Rightarrow> store \<Rightarrow> rat \<Rightarrow> string list \<Rightarrow> error + rat" where
  "total_loop uuid_of s tot [] = Inr tot"
| "total_loop uuid_of s tot (pid # rest) =
     (case get_product uuid_of s pid of
        InvalidUUID \<Rightarrow> Inl (InvalidUUIDError, pid)
      | DoesNotExist \<Rightarrow>
          Inl (NotFoundError, ''Product with ID '' @ pid @ '' does not exist.'')
      | Found product \<Rightarrow>
          total_loop uuid_of s
            (float_add tot (float_of_decimal (product_price product))) rest)"

text \<open>\<open>total = 0.00\<close>, the loop, \<open>self.total_amount = total\<close>: the value assigned.\<close>

definition calculate_total_amount ::
  "(string \<Rightarrow> ident option) \<Rightarrow> store \<Rightarrow> string list \<Rightarrow> error + rat" where
  "calculate_total_amount uuid_of s product_ids = total_loop uuid_of s 0 product_ids"

section \<open>CreateOrder\<close>

text \<open>
  \<open>order.products.set(products)\<close> with the rows of
  \<open>Product.objects.filter(pk__in=product_ids)\<close>: afterwards the association rows of the
  order are one row for each Product row whose key is denoted by one of
  \<open>product_ids\<close>. This is reached only after \<open>calculate_total_amount\<close> has looked up
  every identifier, so each of them is a UUID here.
\<close>

definition set_order_products ::
  "(string \<Rightarrow> ident option) \<Rightarrow> store \<Rightarrow> ident \<Rightarrow> string list \<Rightarrow> store" where
  "set_order_products uuid_of s oid product_ids =
     (let keys = List.map_filter uuid_of product_ids;
          found = filter (\<lambda>p. product_id p \<in> set keys) (products s)
      in s\<lparr>order_products :=
             filter (\<lambda>row. fst row \<noteq> oid) (order_products s)
             @ map (\<lambda>p. (oid, product_id p)) found\<rparr>)"

text \<open>
  \<open>CreateOrder.mutate\<close>; \<open>uuid\<close> is the value of \<open>uuid.uuid4\<close> for the new Order. The
  Order returned carries the \<open>total_amount\<close> that \<open>calculate_total_amount\<close> assigned.
\<close>

definition create_order ::
  "(string \<Rightarrow> ident option) \<Rightarrow> ident \<Rightarrow> store \<Rightarrow> order_input
     \<Rightarrow> (error + order) \<times> store" where
  "create_order uuid_of uuid s inp =
     (let customer_id = oi_customer_id inp; product_ids = oi_product_ids inp in
      case get_customer uuid_of s customer_id of
        InvalidUUID \<Rightarrow> (Inl (InvalidUUIDError, customer_id), s)
      | DoesNotExist \<Rightarrow>
          (Inl (NotFoundError, ''Customer with the given ID does not exist.''), s)
      | Found customer \<Rightarrow>
          if product_ids = []
          then (Inl (EmptyInputError, ''An order must contain at least one product.''), s)
          else
            case calculate_total_amount uuid_of s product_ids of
              Inl e \<Rightarrow> (Inl e, s)
            | Inr tot \<Rightarrow>
                let order = \<lparr>order_id = uuid, order_customer = customer.customer_id customer,
                              order_total_amount = tot\<rparr>;
                    s1 = s\<lparr>orders := orders s @ [order]\<rparr>
                in (Inr order, set_order_products uuid_of s1 uuid product_ids))"

text \<open>The prices of the products named by a list of identifiers, one per identifier.\<close>

definition prices_of :: "(string \<Rightarrow> ident option) \<Rightarrow> store \<Rightarrow> string list \<Rightarrow> rat list" where
  "prices_of uuid_of s product_ids =
     map (\<lambda>pid. case get_product uuid_of s pid of Found p \<Rightarrow> product_price p | _ \<Rightarrow> 0)
       product_ids"

text \<open>Their exact sum, in decimal arithmetic.\<close>

definition exact_total :: "(string \<Rightarrow> ident option) \<Rightarrow> store \<Rightarrow> string list \<Rightarrow> rat" where
  "exact_total uuid_of s product_ids = sum_list (prices_of uuid_of s product_ids)"

text \<open>The association rows of an order: the keys of its products.\<close>

definition products_of_order :: "store \<Rightarrow> ident \<Rightarrow> ident list" where
  "products_of_order s oid = map snd (filter (\<lambda>row. fst row = oid) (order_products s))"

text \<open>
  An invariant of the database: every stored email passed \<open>validate_email\<close>. Both
  mutations that write Customer rows check the format first.
\<close>

definition emails_valid :: "(string \<Rightarrow> bool) \<Rightarrow> store \<Rightarrow> bool" where
  "emails_valid ve s = list_all (\<lambda>c. ve (customer_email c)) (customers s)"

text \<open>
  For the evaluations below: a database with one customer and five products, whose
  UUIDs are written by two characters, and the stand-in for \<open>uuid.UUID\<close> that goes
  with it (a string of two characters denotes itself, any other string is no UUID).
\<close>

definition short_uuid :: "string \<Rightarrow> ident option" where
  "short_uuid x = (if length x = 2 then Some x else None)"


definition shop :: store where
  "shop = \<lparr>customers = [\<lparr>customer_id = ''c1'', customer_name = ''Ann'',
                customer_email = ''ann@x.org'', customer_phone = None\<rparr>],
            products = [\<lparr>product_id = ''p1'', product_name = ''pen'', product_price = 1 / 10,
                          product_stock = 5\<rparr>,
                        \<lparr>product_id = ''p2'', product_name = ''ink'', product_price = 2 / 10,
                          product_stock = 5\<rparr>,
                        \<lparr>product_id = ''p3'', product_name = ''pad'', product_price = 3 / 10,
                          product_stock = 5\<rparr>,
                        \<lparr>product_id = ''p4'', product_name = ''bag'', product_price = 10,
                          product_stock = 5\<rparr>,
                        \<lparr>product_id = ''p5'', product_name = ''box'', product_price = 1525 / 100,
                          product_stock = 5\<rparr>],
            orders = [], order_products = []\<rparr>"

section \<open>Properties\<close>

subsection \<open>CreateProduct\<close>

lemma quantize_2_two_places: "quantize_2 (of_int n / 100) = of_int n / 100"
  by (simp add: quantize_2_def round_half_even_def)

lemma quantize_2_near: "\<bar>quantize_2 x - x\<bar> \<le> 1 / 200"
proof -
  have "of_int \<lfloor>x * 100\<rfloor> \<le> x * 100" "x * 100 < of_int \<lfloor>x * 100\<rfloor> + 1" by linarith+
  then have "\<bar>of_int (round_half_even (x * 100)) - x * 100\<bar> \<le> 1 / 2"
    by (auto simp: round_half_even_def Let_def abs_le_iff)
  then show ?thesis by (simp add: quantize_2_def abs_le_iff field_simps)
qed

text \<open>
  Claim C9, as stated, fails: the Product row does not always carry the given price.
  With the price 0.125 the call succeeds and the row written has the price 0.12.
\<close>

theorem create_product_rounds_price:
  "create_product ''u1'' empty_store \<lparr>pi_name = ''pen'', pi_price = 1 / 8, pi_stock = None\<rparr>
   = (Inr \<lparr>product_id = ''u1'', product_name = ''pen'', product_price = 1 / 8,
           product_stock = 0\<rparr>,
      empty_store\<lparr>products := [\<lparr>product_id = ''u1'', product_name = ''pen'',
           product_price = 12 / 100, product_stock = 0\<rparr>]\<rparr>)"
  by code_simp

text \<open>
  Claim C9, amended. CreateProduct fails with a RangeError exactly when the price is at
  most 0 or a supplied stock is negative; every failing call leaves the database as it
  was. When these checks pass, the call succeeds exactly when the price rounded to two
  decimal places (ties to even) is below \<open>10^8\<close>, and otherwise the write is refused
  (not a RangeError). A successful call returns the Product with the given name and
  price and with stock 0 when the stock is absent, and appends one row that carries
  the rounded price, which is the given price when that has at most two decimal
  places. In particular price 0 fails and price 0.01 succeeds.
\<close>

theorem create_product_range:
  "(is_range_error (fst (create_product uuid s inp))
      \<longleftrightarrow> pi_price inp \<le> 0 \<or> (\<exists>k. pi_stock inp = Some k \<and> k < 0))
   \<and> (\<forall>e. fst (create_product uuid s inp) = Inl e
        \<longrightarrow> snd (create_product uuid s inp) = s
          \<and> (fst e = RangeError
             \<or> e = (DatabaseError, ''InvalidOperation'')
               \<and> 10 ^ 8 \<le> quantize_2 (pi_price inp)))
   \<and> ((\<exists>p. fst (create_product uuid s inp) = Inr p)
        \<longleftrightarrow> 0 < pi_price inp \<and> \<not> (\<exists>k. pi_stock inp = Some k \<and> k < 0)
            \<and> quantize_2 (pi_price inp) < 10 ^ 8)
   \<and> (\<forall>p. fst (create_product uuid s inp) = Inr p \<longrightarrow>
         p = \<lparr>product_id = uuid, product_name = pi_name inp, product_price = pi_price inp,
              product_stock = (case pi_stock inp of None \<Rightarrow> 0 | Some k \<Rightarrow> k)\<rparr>
         \<and> snd (create_product uuid s inp)
           = s\<lparr>products := products s @ [p\<lparr>product_price := quantize_2 (pi_price inp)\<rparr>]\<rparr>
         \<and> \<bar>quantize_2 (pi_price inp) - pi_price inp\<bar> \<le> 1 / 200
         \<and> (\<forall>n. pi_price inp = of_int n / 100 \<longrightarrow> quantize_2 (pi_price inp) = pi_price inp))
   \<and> is_range_error (fst (create_product uuid s (inp\<lparr>pi_price := 0\<rparr>)))
   \<and> (pi_stock inp = None \<longrightarrow>
        (\<exists>p. fst (create_product uuid s (inp\<lparr>pi_price := 1 / 100\<rparr>)) = Inr p))"
proof -
  let ?r = "create_product uuid s inp"
  let ?q = "quantize_2 (pi_price inp)"
  have q0: "0 \<le> ?q" if "0 < pi_price inp"
    using that by (simp add: quantize_2_def round_half_even_def Let_def zero_le_divide_iff)
  have cent: "quantize_2 (1 / 100) = 1 / 100"
    using quantize_2_two_places [of 1] by simp
  have two: "\<forall>n. pi_price inp = of_int n / 100 \<longrightarrow> ?q = pi_price inp"
  proof (intro allI impI)
    fix n :: int
    assume h: "pi_price inp = of_int n / 100"
    show "?q = pi_price inp" unfolding h by (rule quantize_2_two_places)
  qed
  have range: "is_range_error (fst ?r)
      \<longleftrightarrow> pi_price inp \<le> 0 \<or> (\<exists>k. pi_stock inp = Some k \<and> k < 0)"
    by (auto simp: create_product_def is_range_error_def insert_product_def decimal_10_2_def
        Let_def split: option.splits)
  have fails: "\<forall>e. fst ?r = Inl e \<longrightarrow> snd ?r = s
          \<and> (fst e = RangeError
             \<or> e = (DatabaseError, ''InvalidOperation'') \<and> 10 ^ 8 \<le> ?q)"
    using q0
    by (auto simp: create_product_def insert_product_def decimal_10_2_def
        Let_def split: option.splits if_splits)
  have succeeds: "(\<exists>p. fst ?r = Inr p)
        \<longleftrightarrow> 0 < pi_price inp \<and> \<not> (\<exists>k. pi_stock inp = Some k \<and> k < 0) \<and> ?q < 10 ^ 8"
    using q0
    by (auto simp: create_product_def insert_product_def decimal_10_2_def
        Let_def split: option.splits if_splits)
  have row: "\<forall>p. fst ?r = Inr p \<longrightarrow>
         p = \<lparr>product_id = uuid, product_name = pi_name inp, product_price = pi_price inp,
              product_stock = (case pi_stock inp of None \<Rightarrow> 0 | Some k \<Rightarrow> k)\<rparr>
         \<and> snd ?r = s\<lparr>products := products s @ [p\<lparr>product_price := ?q\<rparr>]\<rparr>"
    by (auto simp: create_product_def insert_product_def decimal_10_2_def stock_or_0_def
        Let_def split: option.splits if_splits)
  have zero: "is_range_error (fst (create_product uuid s (inp\<lparr>pi_price := 0\<rparr>)))"
    by (simp add: create_product_def is_range_error_def)
  have one: "pi_stock inp = None \<longrightarrow>
        (\<exists>p. fst (create_product uuid s (inp\<lparr>pi_price := 1 / 100\<rparr>)) = Inr p)"
    by (simp add: create_product_def insert_product_def decimal_10_2_def cent Let_def)
  from range fails succeeds row quantize_2_near [of "pi_price inp"] two zero one
  show ?thesis by blast
qed

theorem create_product_range_witness:
  "is_range_error (fst (create_product ''u1'' empty_store
      \<lparr>pi_name = ''pen'', pi_price = 5, pi_stock = Some (- 1)\<rparr>))
   \<and> snd (create_product ''u1'' empty_store
      \<lparr>pi_name = ''pen'', pi_price = 5, pi_stock = Some (- 1)\<rparr>) = empty_store
   \<and> create_product ''u1'' empty_store
       \<lparr>pi_name = ''pen'', pi_price = 10 ^ 8, pi_stock = None\<rparr>
     = (Inl (DatabaseError, ''InvalidOperation''), empty_store)
   \<and> create_product ''u1'' empty_store \<lparr>pi_name = ''pen'', pi_price = 1 / 100, pi_stock = None\<rparr>
     = (Inr \<lparr>product_id = ''u1'', product_name = ''pen'', product_price = 1 / 100,
              product_stock = 0\<rparr>,
        empty_store\<lparr>products := [\<lparr>product_id = ''u1'', product_name = ''pen'',
              product_price = 1 / 100, product_stock = 0\<rparr>]\<rparr>)"
  using create_product_range [of "''u1''" empty_store
      "\<lparr>pi_name = ''pen'', pi_price = 5, pi_stock = Some (- 1)\<rparr>"]
    create_product_range [of "''u1''" empty_store
      "\<lparr>pi_name = ''pen'', pi_price = 1 / 100, pi_stock = None\<rparr>"]
  by (simp add: create_product_def is_range_error_def insert_product_def decimal_10_2_def
      quantize_2_def round_half_even_def stock_or_0_def empty_store_def Let_def)

subsection \<open>Auxiliary facts\<close>

lemma phone_checks: "phone_re_match ''+123456789'' \<and> \<not> phone_re_match ''12345''
  \<and> phone_re_match (''123456789'' @ [CHR 0x0A]) \<and> \<not> phone_re_match ''+1234567890123456''"
  by (simp add: phone_re_match_def is_digit_def)

lemma email_exists_iff: "email_exists s e \<longleftrightarrow> e \<in> customer_email ` set (customers s)"
  by (auto simp: email_exists_def list_ex_iff)

lemma validate_bulk_None_fresh: "validate_bulk ve s d = None \<Longrightarrow> \<not> email_exists s (ci_email d)"
  by (auto simp: validate_bulk_def Let_def split: if_splits)

lemma validate_bulk_None_valid: "validate_bulk ve s d = None \<Longrightarrow> ve (ci_email d)"
  by (auto simp: validate_bulk_def Let_def split: if_splits)

lemma emails_valid_empty: "emails_valid ve empty_store"
  by (simp add: emails_valid_def empty_store_def)

lemma create_customer_emails_valid:
  "emails_valid ve s \<Longrightarrow> emails_valid ve (snd (create_customer ve db uuid s inp))"
  by (auto simp: create_customer_def Let_def save_customer_def emails_valid_def)

lemma bulk_loop_emails_valid:
  "emails_valid ve s \<Longrightarrow> emails_valid ve (snd (bulk_loop ve db u s cr er xs))"
proof (induction xs arbitrary: s cr er)
  case Nil
  then show ?case by simp
next
  case (Cons d rest)
  show ?case
  proof (cases "validate_bulk ve s d")
    case None
    let ?c = "\<lparr>customer_id = u (length cr), customer_name = ci_name d,
               customer_email = ci_email d, customer_phone = ci_phone d\<rparr>"
    show ?thesis
    proof (cases "save_customer db s ?c")
      case (Inl e)
      with None Cons.prems show ?thesis by simp
    next
      case (Inr s')
      then have "s' = s\<lparr>customers := customers s @ [?c]\<rparr>"
        by (auto simp: save_customer_def split: if_splits)
      with Cons.prems validate_bulk_None_valid [OF None] have "emails_valid ve s'"
        by (simp add: emails_valid_def)
      from Cons.IH [OF this] None Inr show ?thesis by simp
    qed
  next
    case (Some e)
    with Cons show ?thesis by (cases e) simp
  qed
qed

lemma bulk_create_customers_emails_valid:
  "emails_valid ve s \<Longrightarrow> emails_valid ve (snd (bulk_create_customers ve db u s xs))"
  using bulk_loop_emails_valid [of ve s db u "[]" "[]" xs]
  by (simp add: bulk_create_customers_def atomic_def split: sum.splits)

subsection \<open>CreateCustomer\<close>

text \<open>
  Claim C5. When the email of the input is the email of a Customer row of the database,
  CreateCustomer fails with the ConflictError "Email already exists." and the database
  is unchanged. The rows of the database are those written by the mutations, whose
  emails all passed \<open>validate_email\<close> (\<open>emails_valid\<close>, kept by every mutation), so
  the format check before the uniqueness check lets the input through.
\<close>

theorem create_customer_duplicate_email:
  assumes "emails_valid ve s" and "email_exists s (ci_email inp)"
  shows "create_customer ve db uuid s inp = (Inl (ConflictError, ''Email already exists.''), s)"
proof -
  from assms have "ve (ci_email inp)"
    by (auto simp: emails_valid_def email_exists_def list_all_iff list_ex_iff)
  with assms(2) show ?thesis by (simp add: create_customer_def)
qed

theorem create_customer_duplicate_email_witness:
  "create_customer (\<lambda>e. CHR ''@'' \<in> set e) (\<lambda>c. True) ''u2''
     (empty_store\<lparr>customers := [\<lparr>customer_id = ''u1'', customer_name = ''Ann'',
        customer_email = ''ann@x.org'', customer_phone = None\<rparr>]\<rparr>)
     \<lparr>ci_name = ''Bob'', ci_email = ''ann@x.org'', ci_phone = None\<rparr>
   = (Inl (ConflictError, ''Email already exists.''),
      empty_store\<lparr>customers := [\<lparr>customer_id = ''u1'', customer_name = ''Ann'',
        customer_email = ''ann@x.org'', customer_phone = None\<rparr>]\<rparr>)"
  by (rule create_customer_duplicate_email)
     (simp_all add: emails_valid_def email_exists_def empty_store_def)

text \<open>
  Claim C8. CreateCustomer has no check of the required fields: with an empty name and
  a well-formed, unused email it writes a Customer whose name is empty, where the
  batch mutation rejects the same input with "Name is required.".
\<close>

theorem create_customer_empty_name:
  "create_customer (\<lambda>e. CHR ''@'' \<in> set e) (\<lambda>c. True) ''u1'' empty_store
     \<lparr>ci_name = '''', ci_email = ''ann@x.org'', ci_phone = None\<rparr>
   = (Inr \<lparr>customer_id = ''u1'', customer_name = '''', customer_email = ''ann@x.org'',
           customer_phone = None\<rparr>,
      empty_store\<lparr>customers := [\<lparr>customer_id = ''u1'', customer_name = '''',
           customer_email = ''ann@x.org'', customer_phone = None\<rparr>]\<rparr>)
   \<and> validate_bulk (\<lambda>e. CHR ''@'' \<in> set e) empty_store
       \<lparr>ci_name = '''', ci_email = ''ann@x.org'', ci_phone = None\<rparr>
     = Some (MissingFieldError, ''Name is required.'')"
  by (simp add: create_customer_def validate_bulk_def save_customer_def email_exists_def
      phone_rejected_def empty_store_def Let_def)

lemma bulk_loop_append:
  "bulk_loop ve db u s cr er xs = (Inr (cs, es), s1)
   \<Longrightarrow> bulk_loop ve db u s cr er (xs @ ys) = bulk_loop ve db u s1 cs es ys"
proof (induction xs arbitrary: s cr er)
  case Nil
  then show ?case by simp
next
  case (Cons d rest)
  then show ?case
    by (auto simp: Let_def split: option.splits sum.splits)
qed

lemma bulk_loop_errors_prefix:
  "bulk_loop ve db u s cr (er0 @ er) xs =
     (case bulk_loop ve db u s cr er xs of
        (Inl e, t) \<Rightarrow> (Inl e, t)
      | (Inr (cs, es), t) \<Rightarrow> (Inr (cs, er0 @ es), t))"
proof (induction xs arbitrary: s cr er)
  case Nil
  then show ?case by simp
next
  case (Cons d rest)
  show ?case
  proof (cases "validate_bulk ve s d")
    case None
    then show ?thesis
      using Cons.IH by (simp add: Let_def split: sum.splits)
  next
    case (Some e)
    obtain k m where "e = (k, m)" by (cases e)
    with Some Cons.IH [of s cr "er @ [error_line d m]"] show ?thesis by simp
  qed
qed

lemma bulk_loop_customers:
  "bulk_loop ve db u s cr er xs = (Inr (cs, es), s1)
   \<Longrightarrow> \<exists>new. cs = cr @ new \<and> customers s1 = customers s @ new"
proof (induction xs arbitrary: s cr er)
  case Nil
  then show ?case by simp
next
  case (Cons d rest)
  show ?case
  proof (cases "validate_bulk ve s d")
    case None
    let ?c = "\<lparr>customer_id = u (length cr), customer_name = ci_name d,
               customer_email = ci_email d, customer_phone = ci_phone d\<rparr>"
    from Cons.prems None obtain s' where
      sv: "save_customer db s ?c = Inr s'"
      and run: "bulk_loop ve db u s' (cr @ [?c]) er rest = (Inr (cs, es), s1)"
      by (auto simp: Let_def split: sum.splits)
    from sv have s': "customers s' = customers s @ [?c]"
      by (auto simp: save_customer_def split: if_splits)
    from Cons.IH [OF run] obtain new where
      "cs = (cr @ [?c]) @ new" "customers s1 = customers s' @ new" by blast
    with s' show ?thesis by (intro exI [of _ "?c # new"]) simp
  next
    case (Some e)
    obtain k m where "e = (k, m)" by (cases e)
    with Some Cons show ?thesis by simp
  qed
qed

lemma bulk_create_Inr:
  "bulk_create_customers ve db u s xs = (Inr v, s1) \<longleftrightarrow> bulk_loop ve db u s [] [] xs = (Inr v, s1)"
  by (cases "bulk_loop ve db u s [] [] xs")
     (auto simp: bulk_create_customers_def atomic_def split: sum.splits)

lemma validate_bulk_chain:
  "map_option snd (validate_bulk ve s d) = spec_chain ve (map customer_email (customers s)) d"
  by (auto simp: validate_bulk_def spec_chain_def email_exists_iff phone_rejected_def Let_def
      split: option.splits)

lemma bulk_loop_outcomes:
  assumes "\<forall>c. db c"
  shows "\<exists>cs es s'. bulk_loop ve db u s cr er xs = (Inr (cr @ cs, er @ es), s')
     \<and> customers s' = customers s @ cs
     \<and> map input_of cs
        = map fst (filter (\<lambda>p. snd p = None)
            (zip xs (spec_outcomes ve (map customer_email (customers s)) xs)))
     \<and> es = List.map_filter (\<lambda>p. map_option (error_line (fst p)) (snd p))
            (zip xs (spec_outcomes ve (map customer_email (customers s)) xs))"
proof (induction xs arbitrary: s cr er)
  case Nil
  show ?case by (simp add: map_filter_def)
next
  case (Cons d rest)
  let ?emails = "map customer_email (customers s)"
  show ?case
  proof (cases "validate_bulk ve s d")
    case None
    let ?c = "\<lparr>customer_id = u (length cr), customer_name = ci_name d,
               customer_email = ci_email d, customer_phone = ci_phone d\<rparr>"
    let ?s = "s\<lparr>customers := customers s @ [?c]\<rparr>"
    have io: "input_of ?c = d" by (simp add: input_of_def)
    have sv: "save_customer db s ?c = Inr ?s"
      using validate_bulk_None_fresh [OF None] assms by (simp add: save_customer_def)
    have ch: "spec_chain ve ?emails d = None"
      using validate_bulk_chain [of ve s d] None by simp
    have em: "map customer_email (customers ?s) = ?emails @ [ci_email d]" by simp
    from Cons.IH [of ?s "cr @ [?c]" er] obtain cs es s' where
      h: "bulk_loop ve db u ?s (cr @ [?c]) er rest = (Inr ((cr @ [?c]) @ cs, er @ es), s')"
         "customers s' = customers ?s @ cs"
         "map input_of cs = map fst (filter (\<lambda>p. snd p = None)
            (zip rest (spec_outcomes ve (map customer_email (customers ?s)) rest)))"
         "es = List.map_filter (\<lambda>p. map_option (error_line (fst p)) (snd p))
            (zip rest (spec_outcomes ve (map customer_email (customers ?s)) rest))"
      by blast
    show ?thesis
      apply (rule exI [of _ "?c # cs"], rule exI [of _ es], rule exI [of _ s'])
      using h None sv io ch unfolding em by (simp add: map_filter_def)
  next
    case (Some e)
    obtain k m where e: "e = (k, m)" by (cases e)
    have ch: "spec_chain ve ?emails d = Some m"
      using validate_bulk_chain [of ve s d] Some e by simp
    from Cons.IH [of s cr "er @ [error_line d m]"] obtain cs es s' where
      h: "bulk_loop ve db u s cr (er @ [error_line d m]) rest
            = (Inr (cr @ cs, (er @ [error_line d m]) @ es), s')"
         "customers s' = customers s @ cs"
         "map input_of cs = map fst (filter (\<lambda>p. snd p = None)
            (zip rest (spec_outcomes ve ?emails rest)))"
         "es = List.map_filter (\<lambda>p. map_option (error_line (fst p)) (snd p))
            (zip rest (spec_outcomes ve ?emails rest))"
      by blast
    show ?thesis
      apply (rule exI [of _ cs], rule exI [of _ "error_line d m # es"], rule exI [of _ s'])
      using h Some e ch by (simp add: map_filter_def)
  qed
qed

lemma spec_outcomes_length: "length (spec_outcomes ve emails xs) = length xs"
  by (induction xs arbitrary: emails) (auto split: option.splits)

subsection \<open>BulkCreateCustomers\<close>

text \<open>
  Claim C1. When the database accepts the rows, BulkCreateCustomers returns a list of
  created Customers and a list of error lines for every list of inputs. Each input is
  put through the validation chain (required name and email, email format, uniqueness
  of the email, phone format) against the emails held when its turn comes
  (\<open>spec_outcomes\<close>). The created Customers are the inputs that pass, in input
  order, and are the rows added to the database. The error lines are those of the
  inputs that fail, in input order, each made of the email of its input and the
  message of the step that failed: "Validation error for <email>: <message>". So
  every input is in exactly one of the two lists, which together are as long as the
  input list.
\<close>

theorem bulk_create_customers_partition:
  assumes "\<forall>c. db c"
  shows "\<exists>cs es s'.
       bulk_create_customers ve db uuid4 s inputs = (Inr (cs, es), s')
     \<and> customers s' = customers s @ cs
     \<and> map input_of cs
        = map fst (filter (\<lambda>p. snd p = None)
            (zip inputs (spec_outcomes ve (map customer_email (customers s)) inputs)))
     \<and> es = List.map_filter (\<lambda>p. map_option (error_line (fst p)) (snd p))
            (zip inputs (spec_outcomes ve (map customer_email (customers s)) inputs))
     \<and> length cs + length es = length inputs"
proof -
  let ?out = "zip inputs (spec_outcomes ve (map customer_email (customers s)) inputs)"
  from bulk_loop_outcomes [OF assms, of ve uuid4 s "[]" "[]" inputs]
  obtain cs es s' where
    h: "bulk_loop ve db uuid4 s [] [] inputs = (Inr (cs, es), s')"
       "customers s' = customers s @ cs"
       "map input_of cs = map fst (filter (\<lambda>p. snd p = None) ?out)"
       "es = List.map_filter (\<lambda>p. map_option (error_line (fst p)) (snd p)) ?out"
    by auto
  have "length cs = length (filter (\<lambda>p. snd p = None) ?out)"
    using h(3) by (metis length_map)
  moreover have "length es = length (filter (\<lambda>p. \<not> snd p = None) ?out)"
    unfolding h(4) by (simp add: map_filter_def)
  moreover have "length (filter (\<lambda>p. snd p = None) ?out)
      + length (filter (\<lambda>p. \<not> snd p = None) ?out) = length ?out"
    by (rule sum_length_filter_compl)
  ultimately have len: "length cs + length es = length inputs"
    by (simp add: spec_outcomes_length)
  from h(1) have "bulk_create_customers ve db uuid4 s inputs = (Inr (cs, es), s')"
    by (simp add: bulk_create_Inr)
  with h(2-4) len show ?thesis by blast
qed

theorem bulk_create_customers_partition_witness:
  "bulk_create_customers (\<lambda>e. CHR ''@'' \<in> set e) (\<lambda>c. True)
     (\<lambda>n. if n = 0 then ''u2'' else ''u3'')
     (empty_store\<lparr>customers := [\<lparr>customer_id = ''u1'', customer_name = ''Ann'',
        customer_email = ''ann@x.org'', customer_phone = None\<rparr>]\<rparr>)
     [\<lparr>ci_name = ''Bob'', ci_email = ''bob@x.org'', ci_phone = None\<rparr>,
      \<lparr>ci_name = ''Ann'', ci_email = ''ann@x.org'', ci_phone = None\<rparr>,
      \<lparr>ci_name = ''Cy'', ci_email = ''cy@x.org'', ci_phone = Some ''12345''\<rparr>,
      \<lparr>ci_name = ''Dee'', ci_email = ''dee.x.org'', ci_phone = None\<rparr>,
      \<lparr>ci_name = [], ci_email = ''eli@x.org'', ci_phone = None\<rparr>,
      \<lparr>ci_name = ''Fay'', ci_email = [], ci_phone = None\<rparr>,
      \<lparr>ci_name = ''Gus'', ci_email = ''gus@x.org'', ci_phone = Some ''+123456789''\<rparr>,
      \<lparr>ci_name = ''Bob'', ci_email = ''bob@x.org'', ci_phone = None\<rparr>]
   = (Inr ([\<lparr>customer_id = ''u2'', customer_name = ''Bob'', customer_email = ''bob@x.org'',
              customer_phone = None\<rparr>,
            \<lparr>customer_id = ''u3'', customer_name = ''Gus'', customer_email = ''gus@x.org'',
              customer_phone = Some ''+123456789''\<rparr>],
           [''Validation error for ann@x.org: Email '' @ quote @ ''ann@x.org'' @ quote
              @ '' already exists.'',
            ''Validation error for cy@x.org: Invalid phone number format for '' @ quote
              @ ''12345'' @ quote @ ''.'',
            ''Validation error for dee.x.org: Invalid email address format for dee.x.org.'',
            ''Validation error for eli@x.org: Name is required.'',
            ''Validation error for : Email is required.'',
            ''Validation error for bob@x.org: Email '' @ quote @ ''bob@x.org'' @ quote
              @ '' already exists.'']),
      empty_store\<lparr>customers := [\<lparr>customer_id = ''u1'', customer_name = ''Ann'',
        customer_email = ''ann@x.org'', customer_phone = None\<rparr>,
        \<lparr>customer_id = ''u2'', customer_name = ''Bob'', customer_email = ''bob@x.org'',
              customer_phone = None\<rparr>,
        \<lparr>customer_id = ''u3'', customer_name = ''Gus'', customer_email = ''gus@x.org'',
              customer_phone = Some ''+123456789''\<rparr>]\<rparr>)"
  using bulk_create_customers_partition [of "\<lambda>c. True" "\<lambda>e. CHR ''@'' \<in> set e"
     "\<lambda>n. if n = 0 then ''u2'' else ''u3''"
     "empty_store\<lparr>customers := [\<lparr>customer_id = ''u1'', customer_name = ''Ann'',
        customer_email = ''ann@x.org'', customer_phone = None\<rparr>]\<rparr>"
     "[\<lparr>ci_name = ''Bob'', ci_email = ''bob@x.org'', ci_phone = None\<rparr>,
      \<lparr>ci_name = ''Ann'', ci_email = ''ann@x.org'', ci_phone = None\<rparr>,
      \<lparr>ci_name = ''Cy'', ci_email = ''cy@x.org'', ci_phone = Some ''12345''\<rparr>,
      \<lparr>ci_name = ''Dee'', ci_email = ''dee.x.org'', ci_phone = None\<rparr>,
      \<lparr>ci_name = [], ci_email = ''eli@x.org'', ci_phone = None\<rparr>,
      \<lparr>ci_name = ''Fay'', ci_email = [], ci_phone = None\<rparr>,
      \<lparr>ci_name = ''Gus'', ci_email = ''gus@x.org'', ci_phone = Some ''+123456789''\<rparr>,
      \<lparr>ci_name = ''Bob'', ci_email = ''bob@x.org'', ci_phone = None\<rparr>]"]
  by (simp add: bulk_create_customers_def atomic_def validate_bulk_def save_customer_def
      email_exists_def phone_rejected_def phone_re_match_def is_digit_def error_line_def
      empty_store_def Let_def)

text \<open>
  Claim C7, as stated, fails: of two inputs of one batch with the same email, not in
  the database before the batch, the first is created and the second is rejected by
  the duplicate-email check.
\<close>

theorem bulk_intra_batch_duplicate:
  "bulk_create_customers (\<lambda>e. CHR ''@'' \<in> set e) (\<lambda>c. True) (\<lambda>n. ''u1'') empty_store
     [\<lparr>ci_name = ''Ann'', ci_email = ''ann@x.org'', ci_phone = None\<rparr>,
      \<lparr>ci_name = ''Bob'', ci_email = ''ann@x.org'', ci_phone = None\<rparr>]
   = (Inr ([\<lparr>customer_id = ''u1'', customer_name = ''Ann'', customer_email = ''ann@x.org'',
              customer_phone = None\<rparr>],
           [''Validation error for ann@x.org: Email '' @ quote @ ''ann@x.org'' @ quote
              @ '' already exists.'']),
      empty_store\<lparr>customers := [\<lparr>customer_id = ''u1'', customer_name = ''Ann'',
        customer_email = ''ann@x.org'', customer_phone = None\<rparr>]\<rparr>)
   \<and> \<not> email_exists empty_store ''ann@x.org''"
  by (simp add: bulk_create_customers_def atomic_def validate_bulk_def save_customer_def
      email_exists_def phone_rejected_def error_line_def empty_store_def Let_def)

text \<open>
  Claim C7, amended. The duplicate-email check looks at the database at the moment the
  input is processed, inside the transaction: after a batch \<open>xs\<close> has run, a further
  input whose other checks pass is rejected with "Email '<email>' already exists."
  exactly when its email was in the database before the batch or is the email of a
  Customer created by the batch; otherwise it is created.
\<close>

theorem bulk_duplicate_email_check:
  assumes run: "bulk_create_customers ve db uuid4 s xs = (Inr (cs, es), s1)"
    and fields: "ci_name d \<noteq> []" "ci_email d \<noteq> []" "ve (ci_email d)"
      "\<not> phone_rejected (ci_phone d)"
    and ok: "db \<lparr>customer_id = uuid4 (length cs), customer_name = ci_name d,
               customer_email = ci_email d, customer_phone = ci_phone d\<rparr>"
  shows "bulk_create_customers ve db uuid4 s (xs @ [d]) =
     (if email_exists s (ci_email d) \<or> ci_email d \<in> customer_email ` set cs
      then (Inr (cs, es @ [error_line d
              (''Email '' @ quote @ ci_email d @ quote @ '' already exists.'')]), s1)
      else (Inr (cs @ [\<lparr>customer_id = uuid4 (length cs), customer_name = ci_name d,
               customer_email = ci_email d, customer_phone = ci_phone d\<rparr>], es),
            s1\<lparr>customers := customers s1 @ [\<lparr>customer_id = uuid4 (length cs),
               customer_name = ci_name d, customer_email = ci_email d,
               customer_phone = ci_phone d\<rparr>]\<rparr>))"
proof -
  let ?c = "\<lparr>customer_id = uuid4 (length cs), customer_name = ci_name d,
               customer_email = ci_email d, customer_phone = ci_phone d\<rparr>"
  from run have loop: "bulk_loop ve db uuid4 s [] [] xs = (Inr (cs, es), s1)"
    by (simp add: bulk_create_Inr)
  from bulk_loop_customers [OF loop] have cust: "customers s1 = customers s @ cs"
    by simp
  have ex: "email_exists s1 (ci_email d)
      \<longleftrightarrow> email_exists s (ci_email d) \<or> ci_email d \<in> customer_email ` set cs"
    by (auto simp: email_exists_iff cust)
  have step: "bulk_loop ve db uuid4 s [] [] (xs @ [d]) = bulk_loop ve db uuid4 s1 cs es [d]"
    by (rule bulk_loop_append [OF loop])
  show ?thesis
  proof (cases "email_exists s1 (ci_email d)")
    case True
    with fields have "validate_bulk ve s1 d
        = Some (ConflictError, ''Email '' @ quote @ ci_email d @ quote @ '' already exists.'')"
      by (simp add: validate_bulk_def)
    with step True ex show ?thesis
      by (simp add: bulk_create_customers_def atomic_def)
  next
    case False
    with fields have "validate_bulk ve s1 d = None"
      by (simp add: validate_bulk_def)
    moreover have "save_customer db s1 ?c = Inr (s1\<lparr>customers := customers s1 @ [?c]\<rparr>)"
      using False ok by (simp add: save_customer_def)
    ultimately show ?thesis using step False ex
      by (simp add: bulk_create_customers_def atomic_def Let_def)
  qed
qed

theorem bulk_duplicate_email_check_witness:
  "bulk_create_customers (\<lambda>e. CHR ''@'' \<in> set e) (\<lambda>c. True) (\<lambda>n. ''u1'') empty_store
     ([\<lparr>ci_name = ''Ann'', ci_email = ''ann@x.org'', ci_phone = None\<rparr>]
      @ [\<lparr>ci_name = ''Bob'', ci_email = ''ann@x.org'', ci_phone = None\<rparr>])
   = (Inr ([\<lparr>customer_id = ''u1'', customer_name = ''Ann'', customer_email = ''ann@x.org'',
              customer_phone = None\<rparr>],
           [error_line \<lparr>ci_name = ''Bob'', ci_email = ''ann@x.org'', ci_phone = None\<rparr>
              (''Email '' @ quote @ ''ann@x.org'' @ quote @ '' already exists.'')]),
      empty_store\<lparr>customers := [\<lparr>customer_id = ''u1'', customer_name = ''Ann'',
        customer_email = ''ann@x.org'', customer_phone = None\<rparr>]\<rparr>)"
proof -
  have run: "bulk_create_customers (\<lambda>e. CHR ''@'' \<in> set e) (\<lambda>c. True) (\<lambda>n. ''u1'')
       empty_store [\<lparr>ci_name = ''Ann'', ci_email = ''ann@x.org'', ci_phone = None\<rparr>]
     = (Inr ([\<lparr>customer_id = ''u1'', customer_name = ''Ann'',
                customer_email = ''ann@x.org'', customer_phone = None\<rparr>], []),
        empty_store\<lparr>customers := [\<lparr>customer_id = ''u1'', customer_name = ''Ann'',
          customer_email = ''ann@x.org'', customer_phone = None\<rparr>]\<rparr>)"
    by (simp add: bulk_create_customers_def atomic_def validate_bulk_def save_customer_def
        email_exists_def phone_rejected_def empty_store_def Let_def)
  show ?thesis
    using bulk_duplicate_email_check [OF run,
        of "\<lparr>ci_name = ''Bob'', ci_email = ''ann@x.org'', ci_phone = None\<rparr>"]
    by (simp add: phone_rejected_def)
qed

text \<open>
  Claim C2. Let a batch \<open>xs\<close> have run to its end. If the next input \<open>d\<close> passes
  validation and the database refuses its row, the whole call fails and the database
  is the one before the call: the rows that \<open>xs\<close> wrote are rolled back. If \<open>d\<close>
  fails validation, the call on \<open>xs @ d # ys\<close> creates the same Customers and leaves
  the same database as the call on \<open>xs @ ys\<close>, with the one error line of \<open>d\<close>
  added at its place. Whenever the call fails, the database is unchanged.
\<close>

theorem bulk_create_customers_atomicity:
  assumes run: "bulk_create_customers ve db uuid4 s xs = (Inr (cs, es), s1)"
  shows "(validate_bulk ve s1 d = None
          \<and> \<not> db \<lparr>customer_id = uuid4 (length cs), customer_name = ci_name d,
                   customer_email = ci_email d, customer_phone = ci_phone d\<rparr>
          \<longrightarrow> bulk_create_customers ve db uuid4 s (xs @ d # ys)
                = (Inl (DatabaseError, ''DatabaseError''), s))
       \<and> (\<forall>k m. validate_bulk ve s1 d = Some (k, m) \<longrightarrow>
            (case bulk_create_customers ve db uuid4 s (xs @ ys) of
               (Inl e, t) \<Rightarrow> bulk_create_customers ve db uuid4 s (xs @ d # ys) = (Inl e, t)
             | (Inr (cs', es'), t) \<Rightarrow>
                 bulk_create_customers ve db uuid4 s (xs @ d # ys)
                 = (Inr (cs', take (length es) es' @ error_line d m # drop (length es) es'), t)))
       \<and> (\<forall>e. fst (bulk_create_customers ve db uuid4 s zs) = Inl e
            \<longrightarrow> snd (bulk_create_customers ve db uuid4 s zs) = s)"
proof (intro conjI allI impI)
  from run have loop: "bulk_loop ve db uuid4 s [] [] xs = (Inr (cs, es), s1)"
    by (simp add: bulk_create_Inr)
  {
    assume h: "validate_bulk ve s1 d = None
          \<and> \<not> db \<lparr>customer_id = uuid4 (length cs), customer_name = ci_name d,
                   customer_email = ci_email d, customer_phone = ci_phone d\<rparr>"
    then have "\<not> email_exists s1 (ci_email d)" by (blast dest: validate_bulk_None_fresh)
    with h have "bulk_loop ve db uuid4 s1 cs es (d # ys) = (Inl (DatabaseError, ''DatabaseError''), s1)"
      by (simp add: save_customer_def)
    with bulk_loop_append [OF loop, of "d # ys"]
    show "bulk_create_customers ve db uuid4 s (xs @ d # ys)
                = (Inl (DatabaseError, ''DatabaseError''), s)"
      by (simp add: bulk_create_customers_def atomic_def)
  }
  {
    fix k m
    assume h: "validate_bulk ve s1 d = Some (k, m)"
    have with_d: "bulk_loop ve db uuid4 s [] [] (xs @ d # ys)
        = bulk_loop ve db uuid4 s1 cs ((es @ [error_line d m]) @ []) ys"
      using bulk_loop_append [OF loop, of "d # ys"] h by simp
    have without: "bulk_loop ve db uuid4 s [] [] (xs @ ys)
        = bulk_loop ve db uuid4 s1 cs (es @ []) ys"
      using bulk_loop_append [OF loop, of ys] by simp
    obtain r t where rest: "bulk_loop ve db uuid4 s1 cs [] ys = (r, t)"
      by (cases "bulk_loop ve db uuid4 s1 cs [] ys")
    show "case bulk_create_customers ve db uuid4 s (xs @ ys) of
               (Inl e, t) \<Rightarrow> bulk_create_customers ve db uuid4 s (xs @ d # ys) = (Inl e, t)
             | (Inr (cs', es'), t) \<Rightarrow>
                 bulk_create_customers ve db uuid4 s (xs @ d # ys)
                 = (Inr (cs', take (length es) es' @ error_line d m # drop (length es) es'), t)"
    proof (cases r)
      case (Inl e)
      with rest with_d without show ?thesis
        unfolding bulk_loop_errors_prefix bulk_create_customers_def atomic_def
        by simp
    next
      case (Inr v)
      obtain cs' es'' where "v = (cs', es'')" by (cases v)
      with Inr rest with_d without show ?thesis
        unfolding bulk_loop_errors_prefix bulk_create_customers_def atomic_def
        by simp
    qed
  }
  {
    fix e
    assume "fst (bulk_create_customers ve db uuid4 s zs) = Inl e"
    then show "snd (bulk_create_customers ve db uuid4 s zs) = s"
      by (simp add: bulk_create_customers_def atomic_def split: sum.splits)
  }
qed

theorem bulk_create_customers_atomicity_witness:
  "bulk_create_customers (\<lambda>e. CHR ''@'' \<in> set e) (\<lambda>c. length (customer_name c) \<le> 5)
     (\<lambda>n. if n = 0 then ''u1'' else ''u2'') empty_store
     ([\<lparr>ci_name = ''Ann'', ci_email = ''ann@x.org'', ci_phone = None\<rparr>]
      @ \<lparr>ci_name = ''Bartholomew'', ci_email = ''bart@x.org'', ci_phone = None\<rparr>
      # [\<lparr>ci_name = ''Cy'', ci_email = ''cy@x.org'', ci_phone = None\<rparr>])
   = (Inl (DatabaseError, ''DatabaseError''), empty_store)
   \<and> bulk_create_customers (\<lambda>e. CHR ''@'' \<in> set e) (\<lambda>c. length (customer_name c) \<le> 5)
     (\<lambda>n. if n = 0 then ''u1'' else ''u2'') empty_store
     ([\<lparr>ci_name = ''Ann'', ci_email = ''ann@x.org'', ci_phone = None\<rparr>]
      @ \<lparr>ci_name = '''', ci_email = ''bart@x.org'', ci_phone = None\<rparr>
      # [\<lparr>ci_name = ''Cy'', ci_email = ''cy@x.org'', ci_phone = None\<rparr>])
   = (Inr ([\<lparr>customer_id = ''u1'', customer_name = ''Ann'', customer_email = ''ann@x.org'',
              customer_phone = None\<rparr>,
            \<lparr>customer_id = ''u2'', customer_name = ''Cy'', customer_email = ''cy@x.org'',
              customer_phone = None\<rparr>],
           [''Validation error for bart@x.org: Name is required.'']),
      empty_store\<lparr>customers := [\<lparr>customer_id = ''u1'', customer_name = ''Ann'',
              customer_email = ''ann@x.org'', customer_phone = None\<rparr>,
            \<lparr>customer_id = ''u2'', customer_name = ''Cy'', customer_email = ''cy@x.org'',
              customer_phone = None\<rparr>]\<rparr>)"
proof -
  have run: "bulk_create_customers (\<lambda>e. CHR ''@'' \<in> set e)
       (\<lambda>c. length (customer_name c) \<le> 5) (\<lambda>n. if n = 0 then ''u1'' else ''u2'')
       empty_store [\<lparr>ci_name = ''Ann'', ci_email = ''ann@x.org'', ci_phone = None\<rparr>]
     = (Inr ([\<lparr>customer_id = ''u1'', customer_name = ''Ann'',
                customer_email = ''ann@x.org'', customer_phone = None\<rparr>], []),
        empty_store\<lparr>customers := [\<lparr>customer_id = ''u1'', customer_name = ''Ann'',
          customer_email = ''ann@x.org'', customer_phone = None\<rparr>]\<rparr>)"
    by (simp add: bulk_create_customers_def atomic_def validate_bulk_def save_customer_def
        email_exists_def phone_rejected_def empty_store_def Let_def)
  show ?thesis
    using bulk_create_customers_atomicity [OF run,
        of "\<lparr>ci_name = ''Bartholomew'', ci_email = ''bart@x.org'', ci_phone = None\<rparr>"
           "[\<lparr>ci_name = ''Cy'', ci_email = ''cy@x.org'', ci_phone = None\<rparr>]"]
      bulk_create_customers_atomicity [OF run,
        of "\<lparr>ci_name = '''', ci_email = ''bart@x.org'', ci_phone = None\<rparr>"
           "[\<lparr>ci_name = ''Cy'', ci_email = ''cy@x.org'', ci_phone = None\<rparr>]"]
    by (simp add: bulk_create_customers_def atomic_def validate_bulk_def save_customer_def
        email_exists_def phone_rejected_def empty_store_def error_line_def Let_def)
qed

subsection \<open>The rounding to a double\<close>

text \<open>
  \<open>round_double x\<close> is within half a unit in the last place of \<open>x\<close>, and in the
  normal range it is a 53-bit significand times a power of two.
\<close>

lemma pow2_powi: "pow2 e = 2 powi e"
  by (simp add: pow2_def power_int_def power_one_over)

lemma pow2_pos: "0 < pow2 e"
  by (simp add: pow2_powi)

lemma pow2_add: "pow2 (a + b) = pow2 a * pow2 b"
  by (simp add: pow2_powi power_int_add)

lemma pow2_bitlen:
  assumes "0 < p"
  shows "pow2 (bitlen p - 1) \<le> of_int p \<and> of_int p < pow2 (bitlen p)"
proof -
  from assms have b1: "1 \<le> bitlen p" by (auto simp: bitlen_alt_def)
  from bitlen_bounds [OF assms]
  have lo: "(2::int) ^ nat (bitlen p - 1) \<le> p" and hi: "p < (2::int) ^ nat (bitlen p)" by auto
  from lo have "(of_int ((2::int) ^ nat (bitlen p - 1)) :: rat) \<le> of_int p"
    by (simp only: of_int_le_iff)
  moreover from hi have "(of_int p :: rat) < of_int ((2::int) ^ nat (bitlen p))"
    by (simp only: of_int_less_iff)
  ultimately show ?thesis using b1 by (simp add: pow2_def)
qed

lemma ilog2_bounds:
  assumes "0 < a"
  shows "pow2 (ilog2 a) \<le> a \<and> a < pow2 (ilog2 a + 1)"
proof -
  obtain p q where pq: "quotient_of a = (p, q)" by (cases "quotient_of a")
  then have q: "0 < q" and a: "a = of_int p / of_int q"
    by (auto dest: quotient_of_denom_pos quotient_of_div)
  from assms a q have p: "0 < p" by (simp add: zero_less_divide_iff)
  let ?d = "bitlen p - bitlen q"
  from pow2_bitlen [OF p] pow2_bitlen [OF q]
  have P: "pow2 (bitlen p - 1) \<le> of_int p" "of_int p < pow2 (bitlen p)"
    and Q: "pow2 (bitlen q - 1) \<le> of_int q" "of_int q < pow2 (bitlen q)" by auto
  have qpos: "(0::rat) < of_int q" using q by simp
  have "a * pow2 (bitlen q - 1) \<le> a * of_int q"
    using Q(1) assms by (simp add: mult_left_mono)
  also have "\<dots> = of_int p" using a qpos by simp
  also have "\<dots> < pow2 (bitlen p)" by (rule P(2))
  also have "\<dots> = pow2 (?d + 1) * pow2 (bitlen q - 1)"
    by (simp flip: pow2_add)
  finally have hi: "a < pow2 (?d + 1)"
    using pow2_pos [of "bitlen q - 1"] by (simp add: mult_less_cancel_right)
  have "pow2 (?d - 1) * pow2 (bitlen q) = pow2 (bitlen p - 1)"
    by (simp flip: pow2_add)
  also have "\<dots> \<le> of_int p" by (rule P(1))
  also have "\<dots> = a * of_int q" using a qpos by simp
  also have "\<dots> < a * pow2 (bitlen q)"
    using Q(2) assms by (simp add: mult_strict_left_mono)
  finally have lo: "pow2 (?d - 1) < a"
    using pow2_pos [of "bitlen q"] by (simp add: mult_less_cancel_right)
  show ?thesis
    using hi lo pq by (auto simp: ilog2_def Let_def)
qed

lemma round_half_even_near: "\<bar>of_int (round_half_even x) - x\<bar> \<le> 1 / 2"
proof -
  have "of_int \<lfloor>x\<rfloor> \<le> x" "x < of_int \<lfloor>x\<rfloor> + 1" by linarith+
  then show ?thesis
    by (auto simp: round_half_even_def Let_def abs_le_iff)
qed

lemma round_double_near:
  assumes "x \<noteq> 0"
  shows "\<bar>round_double x - x\<bar> \<le> pow2 (max (ilog2 \<bar>x\<bar> - 52) (- 1074)) / 2"
proof -
  let ?u = "pow2 (max (ilog2 \<bar>x\<bar> - 52) (- 1074))"
  let ?m = "round_half_even (\<bar>x\<bar> / ?u)"
  have u: "0 < ?u" by (rule pow2_pos)
  have rd: "round_double x = sgn x * (of_int ?m * ?u)"
    using assms by (simp add: round_double_def Let_def)
  have x: "x = sgn x * \<bar>x\<bar>" by (simp add: sgn_mult_abs)
  have "\<bar>round_double x - x\<bar> = \<bar>sgn x * (of_int ?m * ?u - \<bar>x\<bar>)\<bar>"
    by (subst x, subst rd) (simp add: algebra_simps)
  also have "\<dots> = \<bar>of_int ?m * ?u - \<bar>x\<bar>\<bar>"
    using assms by (simp add: abs_mult abs_sgn_eq)
  also have "\<dots> = \<bar>of_int ?m - \<bar>x\<bar> / ?u\<bar> * ?u"
  proof -
    have "of_int ?m * ?u - \<bar>x\<bar> = (of_int ?m - \<bar>x\<bar> / ?u) * ?u"
      using u by (simp add: field_simps)
    then show ?thesis using u by (simp add: abs_mult)
  qed
  also have "\<dots> \<le> 1 / 2 * ?u"
    using round_half_even_near [of "\<bar>x\<bar> / ?u"] u by (intro mult_right_mono) auto
  finally show ?thesis by simp
qed


lemma round_half_even_floor:
  "\<lfloor>x\<rfloor> \<le> round_half_even x \<and> round_half_even x \<le> \<lfloor>x\<rfloor> + 1"
  by (simp add: round_half_even_def Let_def)

lemma round_double_significand:
  assumes "x \<noteq> 0" and "- 1022 \<le> ilog2 \<bar>x\<bar>"
  shows "\<exists>m. round_double x = sgn x * of_int m * pow2 (ilog2 \<bar>x\<bar> - 52)
           \<and> 2 ^ 52 \<le> m \<and> m \<le> 2 ^ 53"
proof -
  let ?e = "ilog2 \<bar>x\<bar>"
  let ?u = "pow2 (?e - 52)"
  let ?m = "round_half_even (\<bar>x\<bar> / ?u)"
  from assms(2) have mx: "max (?e - 52) (- 1074) = ?e - 52" by simp
  have u: "0 < ?u" by (rule pow2_pos)
  from assms(1) have "0 < \<bar>x\<bar>" by simp
  from ilog2_bounds [OF this] have b: "pow2 ?e \<le> \<bar>x\<bar>" "\<bar>x\<bar> < pow2 (?e + 1)" by auto
  have e: "pow2 ?e = pow2 52 * ?u" "pow2 (?e + 1) = pow2 53 * ?u"
    by (simp_all flip: pow2_add add: add.commute)
  have lo: "2 ^ 52 \<le> \<bar>x\<bar> / ?u"
    using b(1) u unfolding e by (simp add: pos_le_divide_eq pow2_def)
  have hi: "\<bar>x\<bar> / ?u < 2 ^ 53"
    using b(2) u unfolding e by (simp add: pos_divide_less_eq pow2_def)
  from lo have "(2::int) ^ 52 \<le> \<lfloor>\<bar>x\<bar> / ?u\<rfloor>" by (simp add: le_floor_iff)
  moreover from hi have "\<lfloor>\<bar>x\<bar> / ?u\<rfloor> < (2::int) ^ 53" by (simp add: floor_less_iff)
  ultimately have "2 ^ 52 \<le> ?m \<and> ?m \<le> 2 ^ 53"
    using round_half_even_floor [of "\<bar>x\<bar> / ?u"] by linarith
  moreover have "round_double x = sgn x * of_int ?m * ?u"
    using assms(1) mx by (simp add: round_double_def Let_def)
  ultimately show ?thesis by blast
qed

subsection \<open>Order pricing and CreateOrder: auxiliary facts\<close>

lemma get_product_Found:
  "get_product uuid_of s pid = Found p
   \<Longrightarrow> p \<in> set (products s) \<and> uuid_of pid = Some (product_id p)"
  by (auto simp: get_product_def find_Some_iff split: option.splits)

lemma total_loop_resolves:
  "total_loop uuid_of s t ids = Inr v
   \<Longrightarrow> \<forall>pid\<in>set ids. \<exists>p. get_product uuid_of s pid = Found p"
  by (induction ids arbitrary: t) (auto split: get_result.splits)

lemma total_loop_missing:
  "\<forall>q\<in>set pre. \<exists>p. get_product uuid_of s q = Found p
   \<Longrightarrow> get_product uuid_of s pid = DoesNotExist
   \<Longrightarrow> total_loop uuid_of s t (pre @ pid # post)
       = Inl (NotFoundError, ''Product with ID '' @ pid @ '' does not exist.'')"
  by (induction pre arbitrary: t) auto

lemma total_loop_invalid:
  "\<forall>q\<in>set pre. \<exists>p. get_product uuid_of s q = Found p
   \<Longrightarrow> get_product uuid_of s pid = InvalidUUID
   \<Longrightarrow> total_loop uuid_of s t (pre @ pid # post) = Inl (InvalidUUIDError, pid)"
  by (induction pre arbitrary: t) auto


lemma products_of_order_set:
  "products_of_order (set_order_products uuid_of s oid ids) oid
     = map product_id
         (filter (\<lambda>p. product_id p \<in> set (List.map_filter uuid_of ids)) (products s))"
  by (simp add: products_of_order_def set_order_products_def comp_def Let_def)





lemma shop_c1: "get_customer short_uuid shop ''c1''
   = Found \<lparr>customer_id = ''c1'', customer_name = ''Ann'',
            customer_email = ''ann@x.org'', customer_phone = None\<rparr>"
  by (simp add: get_customer_def shop_def short_uuid_def)

lemma shop_c9: "get_customer short_uuid shop ''c9'' = DoesNotExist"
  by (simp add: get_customer_def shop_def short_uuid_def)

lemma shop_p9: "get_product short_uuid shop ''p9'' = DoesNotExist"
  by (simp add: get_product_def shop_def short_uuid_def)

lemma shop_bad: "get_product short_uuid shop ''no-uuid'' = InvalidUUID"
  by (simp add: get_product_def short_uuid_def)

lemma shop_bad_customer: "get_customer short_uuid shop ''no-uuid'' = InvalidUUID"
  by (simp add: get_customer_def short_uuid_def)

lemma shop_p1: "\<exists>p. get_product short_uuid shop ''p1'' = Found p"
  by (simp add: get_product_def shop_def short_uuid_def)

lemma shop_p4: "\<exists>p. get_product short_uuid shop ''p4'' = Found p"
  by (simp add: get_product_def shop_def short_uuid_def)


lemma shop_order_once:
  "create_order short_uuid ''o1'' shop \<lparr>oi_customer_id = ''c1'', oi_product_ids = [''p4'']\<rparr>
   = (Inr \<lparr>order_id = ''o1'', order_customer = ''c1'', order_total_amount = 10\<rparr>,
      shop\<lparr>orders := [\<lparr>order_id = ''o1'', order_customer = ''c1'', order_total_amount = 10\<rparr>],
           order_products := [(''o1'', ''p4'')]\<rparr>)"
  by code_simp

lemma shop_total_p1_p2:
  "calculate_total_amount short_uuid shop [''p1'', ''p2'']
   = Inr (1351079888211149 / 4503599627370496)"
  by code_simp

lemma shop_exact_p1_p2: "exact_total short_uuid shop [''p1'', ''p2''] = 3 / 10"
  by code_simp

lemma shop_total_p1_p2_p3:
  "calculate_total_amount short_uuid shop [''p1'', ''p2'', ''p3'']
   = Inr (1351079888211149 / 2251799813685248)"
  by code_simp

lemma shop_total_p3_p2_p1:
  "calculate_total_amount short_uuid shop [''p3'', ''p2'', ''p1'']
   = Inr (5404319552844595 / 9007199254740992)"
  by code_simp

lemma shop_exact_p1_p2_p3: "exact_total short_uuid shop [''p1'', ''p2'', ''p3''] = 6 / 10"
  by code_simp

lemma shop_total_p4_p5:
  "calculate_total_amount short_uuid shop [''p4'', ''p5''] = Inr (101 / 4)"
  by code_simp

lemma shop_order_p1_p2:
  "fst (create_order short_uuid ''o1'' shop
     \<lparr>oi_customer_id = ''c1'', oi_product_ids = [''p1'', ''p2'']\<rparr>)
   = Inr \<lparr>order_id = ''o1'', order_customer = ''c1'',
           order_total_amount = 1351079888211149 / 4503599627370496\<rparr>"
  by code_simp

subsection \<open>CreateOrder\<close>

text \<open>
  Claim C6. An Order written by CreateOrder has at least one association row: a
  successful call had a non-empty \<open>product_ids\<close> and leaves a row for the new order.
  When the customer resolves and \<open>product_ids\<close> is empty, the call fails with the
  EmptyInputError "An order must contain at least one product." and writes nothing.
\<close>

theorem create_order_nonempty:
  "(\<forall>ord. fst (create_order uuid_of uuid s inp) = Inr ord \<longrightarrow>
       order_id ord = uuid \<and> oi_product_ids inp \<noteq> []
       \<and> products_of_order (snd (create_order uuid_of uuid s inp)) (order_id ord) \<noteq> [])
   \<and> (\<forall>c. get_customer uuid_of s (oi_customer_id inp) = Found c \<and> oi_product_ids inp = []
         \<longrightarrow> create_order uuid_of uuid s inp
             = (Inl (EmptyInputError, ''An order must contain at least one product.''), s))"
proof -
  let ?ids = "oi_product_ids inp"
  let ?r = "create_order uuid_of uuid s inp"
  have written: "order_id ord = uuid \<and> ?ids \<noteq> []
       \<and> products_of_order (snd ?r) (order_id ord) \<noteq> []"
    if ok: "fst ?r = Inr ord" for ord
  proof -
    from ok obtain c tot where
      c: "get_customer uuid_of s (oi_customer_id inp) = Found c" and ne: "?ids \<noteq> []"
      and tot: "calculate_total_amount uuid_of s ?ids = Inr tot"
      and ord: "ord = \<lparr>order_id = uuid, order_customer = customer_id c,
                        order_total_amount = tot\<rparr>"
      by (auto simp: create_order_def Let_def split: get_result.splits if_splits sum.splits)
    from ne obtain pid rest where ids: "?ids = pid # rest" by (cases ?ids) auto
    from tot have "\<forall>pid\<in>set ?ids. \<exists>p. get_product uuid_of s pid = Found p"
      unfolding calculate_total_amount_def by (rule total_loop_resolves)
    with ids obtain p where "get_product uuid_of s pid = Found p" by auto
    then have p: "p \<in> set (products s)" "uuid_of pid = Some (product_id p)"
      by (auto dest: get_product_Found)
    have snd_eq: "snd ?r
        = set_order_products uuid_of (s\<lparr>orders := orders s @ [ord]\<rparr>) uuid ?ids"
      using c ne tot ord by (simp add: create_order_def Let_def)
    have "product_id p \<in> set (List.map_filter uuid_of ?ids)"
      using p(2) ids by (simp add: map_filter_def)
    with p(1) have "p \<in> set (filter (\<lambda>p. product_id p \<in> set (List.map_filter uuid_of ?ids))
          (products s))"
      by simp
    then have "filter (\<lambda>p. product_id p \<in> set (List.map_filter uuid_of ?ids)) (products s)
        \<noteq> []"
      by (metis empty_iff empty_set)
    then have "products_of_order (snd ?r) uuid \<noteq> []"
      by (simp add: snd_eq products_of_order_set)
    with ord ne show ?thesis by simp
  qed
  have empty: "?r = (Inl (EmptyInputError, ''An order must contain at least one product.''), s)"
    if "get_customer uuid_of s (oi_customer_id inp) = Found c \<and> ?ids = []" for c
    using that by (simp add: create_order_def)
  from written empty show ?thesis by blast
qed

theorem create_order_nonempty_witness:
  "create_order short_uuid ''o1'' shop \<lparr>oi_customer_id = ''c1'', oi_product_ids = []\<rparr>
     = (Inl (EmptyInputError, ''An order must contain at least one product.''), shop)
   \<and> products_of_order
       (snd (create_order short_uuid ''o1'' shop
          \<lparr>oi_customer_id = ''c1'', oi_product_ids = [''p4'']\<rparr>))
       ''o1'' \<noteq> []"
  using create_order_nonempty [of short_uuid "''o1''" shop
      "\<lparr>oi_customer_id = ''c1'', oi_product_ids = []\<rparr>"]
    create_order_nonempty [of short_uuid "''o1''" shop
      "\<lparr>oi_customer_id = ''c1'', oi_product_ids = [''p4'']\<rparr>"]
    shop_c1 shop_order_once
  by simp

text \<open>
  Claim C4, as stated, fails in two ways. When the customer does not resolve either,
  the error is the one of the customer lookup, which names no product identifier.
  When the customer resolves and an identifier of the list is no UUID, the error is
  the one of the UUID check, not a NotFoundError.
\<close>

theorem create_order_unknown_customer:
  "get_product short_uuid shop ''p9'' = DoesNotExist
   \<and> create_order short_uuid ''o1'' shop
       \<lparr>oi_customer_id = ''c9'', oi_product_ids = [''p1'', ''p9'']\<rparr>
     = (Inl (NotFoundError, ''Customer with the given ID does not exist.''), shop)
   \<and> create_order short_uuid ''o1'' shop
       \<lparr>oi_customer_id = ''c9'', oi_product_ids = [''p1'', ''p9'']\<rparr>
     \<noteq> (Inl (NotFoundError, ''Product with ID p9 does not exist.''), shop)
   \<and> get_product short_uuid shop ''no-uuid'' = InvalidUUID
   \<and> create_order short_uuid ''o1'' shop
       \<lparr>oi_customer_id = ''c1'', oi_product_ids = [''p1'', ''no-uuid'']\<rparr>
     = (Inl (InvalidUUIDError, ''no-uuid''), shop)"
  by code_simp

text \<open>
  Claim C4, amended. Let some identifier of \<open>product_ids\<close> not resolve to a stored
  Product. When the customer resolves, CreateOrder fails for the first identifier
  \<open>pid\<close> of the list that does not resolve, and the database is unchanged: with the
  NotFoundError "Product with ID <pid> does not exist." when \<open>pid\<close> is a UUID without
  a Product, and with the error of the UUID check, which names \<open>pid\<close>, when it is no
  UUID. When the customer does not resolve, CreateOrder fails with "Customer with the
  given ID does not exist." for a UUID without a Customer and with the error of the
  UUID check otherwise, and the database is unchanged as well.
\<close>

theorem create_order_missing_product:
  assumes "\<exists>pid\<in>set (oi_product_ids inp). \<forall>p. get_product uuid_of s pid \<noteq> Found p"
  shows "(\<forall>c. get_customer uuid_of s (oi_customer_id inp) = Found c \<longrightarrow>
           (\<exists>pre pid post. oi_product_ids inp = pre @ pid # post
              \<and> (\<forall>q\<in>set pre. \<exists>p. get_product uuid_of s q = Found p)
              \<and> (get_product uuid_of s pid = DoesNotExist
                   \<and> create_order uuid_of uuid s inp
                     = (Inl (NotFoundError,
                          ''Product with ID '' @ pid @ '' does not exist.''), s)
                 \<or> get_product uuid_of s pid = InvalidUUID
                   \<and> create_order uuid_of uuid s inp = (Inl (InvalidUUIDError, pid), s))))
       \<and> (get_customer uuid_of s (oi_customer_id inp) = DoesNotExist \<longrightarrow>
           create_order uuid_of uuid s inp
           = (Inl (NotFoundError, ''Customer with the given ID does not exist.''), s))
       \<and> (get_customer uuid_of s (oi_customer_id inp) = InvalidUUID \<longrightarrow>
           create_order uuid_of uuid s inp
           = (Inl (InvalidUUIDError, oi_customer_id inp), s))"
proof (intro conjI allI impI)
  fix c
  assume c: "get_customer uuid_of s (oi_customer_id inp) = Found c"
  from assms obtain pre pid post where
    split: "oi_product_ids inp = pre @ pid # post" "\<forall>p. get_product uuid_of s pid \<noteq> Found p"
      "\<forall>q\<in>set pre. \<not> (\<forall>p. get_product uuid_of s q \<noteq> Found p)"
    using split_list_first_prop [of "oi_product_ids inp"
        "\<lambda>pid. \<forall>p. get_product uuid_of s pid \<noteq> Found p"]
    by blast
  from split(3) have pre: "\<forall>q\<in>set pre. \<exists>p. get_product uuid_of s q = Found p" by blast
  from split(1) have ne: "oi_product_ids inp \<noteq> []" by simp
  consider (missing) "get_product uuid_of s pid = DoesNotExist"
    | (invalid) "get_product uuid_of s pid = InvalidUUID"
    using split(2) by (cases "get_product uuid_of s pid") auto
  then have "get_product uuid_of s pid = DoesNotExist
         \<and> create_order uuid_of uuid s inp
           = (Inl (NotFoundError, ''Product with ID '' @ pid @ '' does not exist.''), s)
       \<or> get_product uuid_of s pid = InvalidUUID
         \<and> create_order uuid_of uuid s inp = (Inl (InvalidUUIDError, pid), s)"
  proof cases
    case missing
    have "calculate_total_amount uuid_of s (oi_product_ids inp)
        = Inl (NotFoundError, ''Product with ID '' @ pid @ '' does not exist.'')"
      unfolding calculate_total_amount_def split(1)
      by (rule total_loop_missing [OF pre missing])
    with c ne missing show ?thesis by (simp add: create_order_def)
  next
    case invalid
    have "calculate_total_amount uuid_of s (oi_product_ids inp) = Inl (InvalidUUIDError, pid)"
      unfolding calculate_total_amount_def split(1)
      by (rule total_loop_invalid [OF pre invalid])
    with c ne invalid show ?thesis by (simp add: create_order_def)
  qed
  with split(1) pre
  show "\<exists>pre pid post. oi_product_ids inp = pre @ pid # post
              \<and> (\<forall>q\<in>set pre. \<exists>p. get_product uuid_of s q = Found p)
              \<and> (get_product uuid_of s pid = DoesNotExist
                   \<and> create_order uuid_of uuid s inp
                     = (Inl (NotFoundError,
                          ''Product with ID '' @ pid @ '' does not exist.''), s)
                 \<or> get_product uuid_of s pid = InvalidUUID
                   \<and> create_order uuid_of uuid s inp = (Inl (InvalidUUIDError, pid), s))"
    by blast
next
  assume "get_customer uuid_of s (oi_customer_id inp) = DoesNotExist"
  then show "create_order uuid_of uuid s inp
           = (Inl (NotFoundError, ''Customer with the given ID does not exist.''), s)"
    by (simp add: create_order_def)
next
  assume "get_customer uuid_of s (oi_customer_id inp) = InvalidUUID"
  then show "create_order uuid_of uuid s inp = (Inl (InvalidUUIDError, oi_customer_id inp), s)"
    by (simp add: create_order_def)
qed

theorem create_order_missing_product_witness:
  "create_order short_uuid ''o1'' shop
     \<lparr>oi_customer_id = ''c1'', oi_product_ids = [''p1'', ''p9'', ''p4'']\<rparr>
   = (Inl (NotFoundError, ''Product with ID p9 does not exist.''), shop)"
proof -
  have missing: "\<exists>pid\<in>set (oi_product_ids
      \<lparr>oi_customer_id = ''c1'', oi_product_ids = [''p1'', ''p9'', ''p4'']\<rparr>).
      \<forall>p. get_product short_uuid shop pid \<noteq> Found p"
    using shop_p9 by simp
  from create_order_missing_product [OF missing, of "''o1''"] shop_c1
  obtain pre pid post where
    h: "[''p1'', ''p9'', ''p4''] = pre @ pid # post"
       "get_product short_uuid shop pid = DoesNotExist
          \<and> create_order short_uuid ''o1'' shop
               \<lparr>oi_customer_id = ''c1'', oi_product_ids = [''p1'', ''p9'', ''p4'']\<rparr>
             = (Inl (NotFoundError, ''Product with ID '' @ pid @ '' does not exist.''), shop)
        \<or> get_product short_uuid shop pid = InvalidUUID
          \<and> create_order short_uuid ''o1'' shop
               \<lparr>oi_customer_id = ''c1'', oi_product_ids = [''p1'', ''p9'', ''p4'']\<rparr>
             = (Inl (InvalidUUIDError, pid), shop)"
    by auto
  have "pid \<in> set (pre @ pid # post)" by simp
  with h(1) have "pid \<in> set [''p1'', ''p9'', ''p4'']" by simp
  with h(2) shop_p1 shop_p4 shop_p9 have "pid = ''p9''" by auto
  with h(2) shop_p9 show ?thesis by simp
qed



text \<open>
  Claim C3. The total is computed in binary floating point, not in decimal arithmetic.
  With prices 0.10 and 0.20 the order's \<open>total_amount\<close> is the double
  0.3000000000000000444 and not 0.30; with prices 0.10, 0.20 and 0.30 the list in this
  order gives 0.6000000000000000888 and the reversed list 0.5999999999999999778, none
  of them 0.60. The example of the specification, 10.00 and 15.25, gives 25.25.
\<close>

theorem calculate_total_amount_float:
  "calculate_total_amount short_uuid shop [''p1'', ''p2'']
     = Inr (1351079888211149 / 4503599627370496)
   \<and> exact_total short_uuid shop [''p1'', ''p2''] = 3 / 10
   \<and> fst (create_order short_uuid ''o1'' shop
        \<lparr>oi_customer_id = ''c1'', oi_product_ids = [''p1'', ''p2'']\<rparr>)
     = Inr \<lparr>order_id = ''o1'', order_customer = ''c1'',
             order_total_amount = 1351079888211149 / 4503599627370496\<rparr>
   \<and> calculate_total_amount short_uuid shop [''p1'', ''p2'', ''p3'']
     = Inr (1351079888211149 / 2251799813685248)
   \<and> calculate_total_amount short_uuid shop [''p3'', ''p2'', ''p1'']
     = Inr (5404319552844595 / 9007199254740992)
   \<and> exact_total short_uuid shop [''p1'', ''p2'', ''p3''] = 6 / 10
   \<and> calculate_total_amount short_uuid shop [''p4'', ''p5''] = Inr (101 / 4)"
  by (intro conjI shop_total_p1_p2 shop_exact_p1_p2 shop_order_p1_p2 shop_total_p1_p2_p3
      shop_total_p3_p2_p1 shop_exact_p1_p2_p3 shop_total_p4_p5)

end
